theory Spec2Isabelle
  imports Main "HOL-Library.Word" "HOL-Library.Code_Target_Nat"
begin

section \<open>The trace-to-CSV converter (util/tracing/trace_to_csv.c)\<close>

text \<open>
  A shallow embedding of \<^verbatim>\<open>trace_to_csv.c\<close>. Every C function of the file is a HOL
  function of the same name that takes the program state and returns the new state
  together with either the returned value (\<open>Inr\<close>) or the reason the run stopped
  (\<open>Inl\<close>). The platform is the one the format was written on: \<^verbatim>\<open>int\<close> has 32 bits,
  \<^verbatim>\<open>instant_t\<close>, \<^verbatim>\<open>size_t\<close> and pointers have 64 bits, integers are stored
  little-endian.
\<close>

subsection \<open>Platform types\<close>

type_synonym c_int = "32 word"      \<comment> \<open>C \<^verbatim>\<open>int\<close>; read as signed with \<open>sint\<close>\<close>
type_synonym instant_t = "64 word"  \<comment> \<open>signed 64-bit instant; read with \<open>sint\<close>\<close>
type_synonym size_t = "64 word"     \<comment> \<open>unsigned; read with \<open>unat\<close>\<close>
type_synonym pointer = "64 word"    \<comment> \<open>an address, only ever compared\<close>

text \<open>A byte of a file or of memory is a C \<^verbatim>\<open>char\<close>; a block of bytes is a \<open>string\<close>.\<close>

definition le_nat :: "string \<Rightarrow> nat" where
  "le_nat cs = foldr (\<lambda>c acc. of_char c + 256 * acc) cs 0"

definition le_word :: "string \<Rightarrow> 'a::len word" where
  "le_word cs = of_nat (le_nat cs)"

definition nl :: string where
  "nl = [CHR 0x0A]"

subsection \<open>Formatted output\<close>

text \<open>\<^verbatim>\<open>%d\<close> and \<^verbatim>\<open>%lld\<close> of \<^verbatim>\<open>printf\<close>: the decimal digits, with a minus sign in front
  of a negative number.\<close>

definition digit_char :: "nat \<Rightarrow> char" where
  "digit_char d = ''0123456789'' ! d"

fun dec :: "nat \<Rightarrow> string" where
  "dec n = (if n < 10 then [digit_char n] else dec (n div 10) @ [digit_char (n mod 10)])"

declare dec.simps [simp del]

definition fmt_d :: "int \<Rightarrow> string" where
  "fmt_d i = (if i < 0 then CHR ''-'' # dec (nat (- i)) else dec (nat i))"

text \<open>\<^verbatim>\<open>snprintf(buf, size, "%d", v)\<close>: at most \<^verbatim>\<open>size - 1\<close> characters are stored, then
  the terminating null; the result is the string left in \<^verbatim>\<open>buf\<close>.\<close>

definition snprintf_d :: "nat \<Rightarrow> int \<Rightarrow> string" where
  "snprintf_d n v = take (n - 1) (fmt_d v)"

subsection \<open>Input streams\<close>

text \<open>
  A \<^verbatim>\<open>FILE\<close> opened for reading: the bytes not read yet, the end-of-file and error
  indicators, and what the device does when the bytes run out: it signals end of file,
  or (\<open>io_error\<close>) the read fails.
\<close>

record FILE =
  unread :: string
  eof_ind :: bool
  err_ind :: bool
  io_error :: bool

text \<open>
  \<^verbatim>\<open>fread(ptr, size, nmemb, stream)\<close> returns the bytes it stored at \<^verbatim>\<open>ptr\<close> and the
  number of complete items among them. A short read consumes what is there, and sets
  the end-of-file indicator (or the error indicator when the device fails).
\<close>

definition fread :: "nat \<Rightarrow> nat \<Rightarrow> FILE \<Rightarrow> (string \<times> nat) \<times> FILE" where
  "fread sz nmemb f =
     (let want = sz * nmemb;
          got = take want (unread f);
          short = length got < want
      in ((got, length got div sz),
          f\<lparr>unread := drop want (unread f),
            eof_ind := eof_ind f \<or> (short \<and> \<not> io_error f),
            err_ind := err_ind f \<or> (short \<and> io_error f)\<rparr>))"

definition feof :: "FILE \<Rightarrow> bool" where
  "feof f = eof_ind f"

subsection \<open>What trace.h supplies\<close>

text \<open>The record of one trace event, \<^verbatim>\<open>trace_record_t\<close>, with the fields the source
  reads.\<close>

record trace_record_t =
  event_type :: c_int
  self_struct :: pointer
  reaction_number :: c_int
  worker :: c_int
  logical_time :: instant_t
  microstep :: c_int
  physical_time :: instant_t

text \<open>
  \<^verbatim>\<open>trace.h\<close> is not among the sources. What the converter takes from it is a
  parameter of the model: the capacity of the record buffer (a positive \<^verbatim>\<open>int\<close>
  constant), the table of event names, the size of a record and how the fields of a
  record are laid out in its bytes.
\<close>

record trace_h =
  TRACE_BUFFER_CAPACITY :: nat
  trace_event_names :: "string list"
  sizeof_trace_record_t :: nat
  load_trace_record :: "string \<Rightarrow> trace_record_t"

text \<open>Modelled from the spec: the layout of \<^verbatim>\<open>trace_record_t\<close>, declared in \<^verbatim>\<open>trace.h\<close>. The
  fields come in the order of the format table, on an LP64 little-endian machine: 48
  bytes, every field at its natural alignment.\<close>

definition lp64_record :: "string \<Rightarrow> trace_record_t" where
  "lp64_record bs =
     \<lparr>event_type = le_word (take 4 bs),
      self_struct = le_word (take 8 (drop 8 bs)),
      reaction_number = le_word (take 4 (drop 16 bs)),
      worker = le_word (take 4 (drop 20 bs)),
      logical_time = le_word (take 8 (drop 24 bs)),
      microstep = le_word (take 4 (drop 32 bs)),
      physical_time = le_word (take 8 (drop 40 bs))\<rparr>"

subsection \<open>The C library's allocator\<close>

text \<open>\<^verbatim>\<open>calloc(nmemb, size)\<close> is the environment's: \<open>calloc_failure nmemb size\<close> is
  \<open>None\<close> when the block is handed out and \<open>Some e\<close> when the call returns \<^verbatim>\<open>NULL\<close>
  with \<^verbatim>\<open>errno\<close> set to \<open>e\<close>. The small \<^verbatim>\<open>malloc\<close> blocks for one description and
  for one reaction name are taken to be handed out.\<close>

record libc =
  calloc_failure :: "nat \<Rightarrow> nat \<Rightarrow> c_int option"

subsection \<open>Program state and the ways a run stops\<close>

record object_description_t =
  object :: pointer
  description :: string

text \<open>
  The globals of the file and the two open files. \<open>object_descriptions\<close> is \<open>None\<close>
  for the \<^verbatim>\<open>NULL\<close> pointer. \<open>trace\<close> holds the bytes of the record buffer.
  \<open>csv_file\<close> and \<open>stderr\<close> are the strings written so far, one per \<^verbatim>\<open>fprintf\<close>
  call, in order. The diagnostic lines on standard output are left out.
\<close>

record state =
  start_time :: instant_t
  object_descriptions :: "object_description_t list option"
  object_descriptions_size :: c_int
  trace :: string
  trace_file :: FILE
  csv_file :: "string list"
  stderr :: "string list"

datatype undefined_behaviour =
  IndexOutOfTable      \<comment> \<open>\<^verbatim>\<open>trace_event_names[k]\<close> with \<open>k\<close> outside the table\<close>
| BufferOverrun        \<comment> \<open>\<^verbatim>\<open>fread\<close> stores more bytes than \<^verbatim>\<open>trace\<close> has\<close>
| NullDereference      \<comment> \<open>\<^verbatim>\<open>object_descriptions[i]\<close> with the table \<^verbatim>\<open>NULL\<close>\<close>

datatype stop =
  Exit int                 \<comment> \<open>\<^verbatim>\<open>exit(code)\<close>\<close>
| TraceFailure             \<comment> \<open>a read of the header came up short\<close>
| UB undefined_behaviour   \<comment> \<open>the C standard gives the step no meaning\<close>

subsection \<open>get_description\<close>

fun scan_descriptions :: "object_description_t list \<Rightarrow> pointer \<Rightarrow> string" where
  "scan_descriptions [] obj = ''NO DESCRIPTION FOUND''"
| "scan_descriptions (e # es) obj =
     (if object e = obj then description e else scan_descriptions es obj)"

text \<open>The loop runs over the indices below \<open>object_descriptions_size\<close>; with a positive
  size it reads through the table pointer.\<close>

definition get_description :: "state \<Rightarrow> pointer \<Rightarrow> stop + string" where
  "get_description s obj =
     (if sint (object_descriptions_size s) \<le> 0 then Inr ''NO DESCRIPTION FOUND''
      else case object_descriptions s of
             None \<Rightarrow> Inl (UB NullDereference)
           | Some table \<Rightarrow>
               Inr (scan_descriptions (take (nat (sint (object_descriptions_size s))) table) obj))"

subsection \<open>read_header\<close>

definition BUFFER_SIZE :: nat where
  "BUFFER_SIZE = 1024"

text \<open>Modelled from the spec: \<^verbatim>\<open>_LF_TRACE_FAILURE\<close> is a macro of \<^verbatim>\<open>trace.h\<close>, which is
  not among the sources. The spec calls every short read of the header a fatal decoding
  failure with no recovery, so the macro stops the run.\<close>

definition LF_TRACE_FAILURE :: stop where
  "LF_TRACE_FAILURE = TraceFailure"

text \<open>The \<^verbatim>\<open>while\<close> loop that collects one description: \<open>character\<close> is the byte last
  read, \<open>buffer\<close> the bytes stored so far (\<open>description_length\<close> is its length).\<close>

function read_description :: "char \<Rightarrow> string \<Rightarrow> FILE \<Rightarrow> (stop + string) \<times> FILE" where
  "read_description character buffer f =
     (if character \<noteq> CHR 0x00 \<and> length buffer < BUFFER_SIZE - 1 then
        (case fread 1 1 f of
           ((bs, items_read), f') \<Rightarrow>
             if items_read \<noteq> 1 then (Inl LF_TRACE_FAILURE, f')
             else read_description (hd bs) (buffer @ [character]) f')
      else (Inr buffer, f))"
  by pat_completeness auto
termination
  by (relation "measure (\<lambda>(c, b, f). BUFFER_SIZE - 1 - length b)")
     (auto simp: BUFFER_SIZE_def)

declare read_description.simps [simp del]

text \<open>The \<^verbatim>\<open>for\<close> loop over the table entries, as a recursion over the indices that are
  left.\<close>

fun read_entries :: "nat list \<Rightarrow> state \<Rightarrow> stop option \<times> state" where
  "read_entries [] s = (None, s)"
| "read_entries (i # rest) s =
     (case fread 8 1 (trace_file s) of
        ((ob, items_read), f1) \<Rightarrow>
          if items_read \<noteq> 1 then (Some LF_TRACE_FAILURE, s\<lparr>trace_file := f1\<rparr>)
          else
            (case fread 1 1 f1 of
               ((cs, items_read), f2) \<Rightarrow>
                 if items_read \<noteq> 1 then (Some LF_TRACE_FAILURE, s\<lparr>trace_file := f2\<rparr>)
                 else
                   (case read_description (hd cs) [] f2 of
                      (Inl e, f3) \<Rightarrow> (Some e, s\<lparr>trace_file := f3\<rparr>)
                    | (Inr d, f3) \<Rightarrow>
                        (case object_descriptions s of
                           None \<Rightarrow> (Some (UB NullDereference), s\<lparr>trace_file := f3\<rparr>)
                         | Some table \<Rightarrow>
                             read_entries rest
                               (s\<lparr>trace_file := f3,
                                  object_descriptions :=
                                    Some (table[i := \<lparr>object = le_word ob,
                                                     description = d\<rparr>])\<rparr>)))))"

text \<open>\<^verbatim>\<open>read_header\<close> returns a \<^verbatim>\<open>size_t\<close>: \<^verbatim>\<open>return -1\<close> is the largest value of the
  type, and the \<^verbatim>\<open>int\<close> size is converted with its sign.\<close>

definition read_header :: "trace_h \<Rightarrow> libc \<Rightarrow> state \<Rightarrow> (stop + size_t) \<times> state" where
  "read_header H L s =
     (case fread 8 1 (trace_file s) of
        ((st, items_read), f1) \<Rightarrow>
          if items_read \<noteq> 1 then (Inl LF_TRACE_FAILURE, s\<lparr>trace_file := f1\<rparr>)
          else
            (case fread 4 1 f1 of
               ((cnt, items_read), f2) \<Rightarrow>
                 if items_read \<noteq> 1
                 then (Inl LF_TRACE_FAILURE, s\<lparr>start_time := le_word st, trace_file := f2\<rparr>)
                 else
                   (let s2 = s\<lparr>start_time := le_word st,
                               object_descriptions_size := le_word cnt,
                               trace_file := f2\<rparr>;
                        nmemb = unat (scast (object_descriptions_size s2) :: size_t)
                    in case calloc_failure L nmemb (sizeof_trace_record_t H) of
                         Some errno \<Rightarrow>
                           (Inr (- 1),
                            s2\<lparr>object_descriptions := None,
                               stderr := stderr s2 @
                                 [''ERROR: Memory allocation failure '' @ fmt_d (sint errno)
                                  @ ''.'' @ nl]\<rparr>)
                       | None \<Rightarrow>
                           (case read_entries [0..<nat (sint (object_descriptions_size s2))]
                                   (s2\<lparr>object_descriptions :=
                                         Some (replicate nmemb
                                                 \<lparr>object = 0, description = []\<rparr>)\<rparr>) of
                              (Some e, s3) \<Rightarrow> (Inl e, s3)
                            | (None, s3) \<Rightarrow>
                                (Inr (scast (object_descriptions_size s3)), s3)))))"

subsection \<open>read_trace\<close>

text \<open>\<^verbatim>\<open>trace[i]\<close>: the record laid out in the bytes of the buffer from offset
  \<open>i * sizeof(trace_record_t)\<close>.\<close>

definition trace_at :: "trace_h \<Rightarrow> state \<Rightarrow> nat \<Rightarrow> trace_record_t" where
  "trace_at H s i =
     load_trace_record H
       (take (sizeof_trace_record_t H) (drop (i * sizeof_trace_record_t H) (trace s)))"

text \<open>The text \<^verbatim>\<open>reaction_name\<close> points to when the row is printed: the literal
  \<^verbatim>\<open>"none"\<close>, or the 4-byte block filled by \<^verbatim>\<open>snprintf(reaction_name, 4, "%d", ...)\<close>.\<close>

definition reaction_name :: "c_int \<Rightarrow> string" where
  "reaction_name n = (if 0 \<le> sint n then snprintf_d 4 (sint n) else ''none'')"

text \<open>The seven columns of one output row, and the line
  \<^verbatim>\<open>"%s, %s, %s, %d, %lld, %d, %lld\n"\<close> makes of them. The two subtractions are on
  \<^verbatim>\<open>instant_t\<close>; the model takes the two's-complement result, which is what the
  machine computes where C leaves signed overflow open.\<close>

record csv_row =
  Event :: string
  Reactor :: string
  Reaction :: string
  Worker :: string
  Elapsed_Logical_Time :: string
  Microstep :: string
  Elapsed_Physical_Time :: string

definition fprintf_row :: "csv_row \<Rightarrow> string" where
  "fprintf_row r =
     Event r @ '', '' @ Reactor r @ '', '' @ Reaction r @ '', '' @ Worker r @ '', '' @
     Elapsed_Logical_Time r @ '', '' @ Microstep r @ '', '' @ Elapsed_Physical_Time r @ nl"

definition row_of :: "instant_t \<Rightarrow> string \<Rightarrow> string \<Rightarrow> trace_record_t \<Rightarrow> csv_row" where
  "row_of start event_name descr r =
     \<lparr>Event = event_name,
      Reactor = descr,
      Reaction = reaction_name (reaction_number r),
      Worker = fmt_d (sint (worker r)),
      Elapsed_Logical_Time = fmt_d (sint (logical_time r - start)),
      Microstep = fmt_d (sint (microstep r)),
      Elapsed_Physical_Time = fmt_d (sint (physical_time r - start))\<rparr>"

text \<open>The body of the \<^verbatim>\<open>for\<close> loop for index \<open>i\<close>. The source indexes
  \<^verbatim>\<open>trace_event_names\<close> with the record's \<^verbatim>\<open>event_type\<close> as it is; outside the table
  the access has no defined result.\<close>

definition write_line :: "trace_h \<Rightarrow> nat \<Rightarrow> state \<Rightarrow> stop option \<times> state" where
  "write_line H i s =
     (let r = trace_at H s i in
      if sint (event_type r) < 0 \<or> int (length (trace_event_names H)) \<le> sint (event_type r)
      then (Some (UB IndexOutOfTable), s)
      else
        (case get_description s (self_struct r) of
           Inl e \<Rightarrow> (Some e, s)
         | Inr descr \<Rightarrow>
             (None,
              s\<lparr>csv_file := csv_file s @
                   [fprintf_row
                      (row_of (start_time s)
                         (trace_event_names H ! nat (sint (event_type r))) descr r)]\<rparr>)))"

fun write_lines :: "trace_h \<Rightarrow> nat list \<Rightarrow> state \<Rightarrow> stop option \<times> state" where
  "write_lines H [] s = (None, s)"
| "write_lines H (i # rest) s =
     (case write_line H i s of
        (Some e, s') \<Rightarrow> (Some e, s')
      | (None, s') \<Rightarrow> write_lines H rest s')"

text \<open>
  \<^verbatim>\<open>read_trace\<close>. \<open>items_read\<close> is an \<^verbatim>\<open>int\<close>: the \<^verbatim>\<open>size_t\<close> results of \<^verbatim>\<open>fread\<close>
  are cut to 32 bits when stored, and the sum of the second assignment is formed in
  \<^verbatim>\<open>size_t\<close>. The count given to the second \<^verbatim>\<open>fread\<close> is \<^verbatim>\<open>trace_length\<close> converted
  to \<^verbatim>\<open>size_t\<close>. The buffer \<^verbatim>\<open>trace\<close> has room for \<^verbatim>\<open>TRACE_BUFFER_CAPACITY\<close> records;
  the bytes read replace its first bytes and the rest stays as it was.
\<close>

definition read_trace :: "trace_h \<Rightarrow> state \<Rightarrow> (stop + size_t) \<times> state" where
  "read_trace H s =
     (case fread 4 1 (trace_file s) of
        ((len, n1), f1) \<Rightarrow>
          (let items_read = (of_nat n1 :: c_int) in
           if items_read \<noteq> 1 then
             (if feof f1 then (Inr 0, s\<lparr>trace_file := f1\<rparr>)
              else (Inl (Exit 3),
                    s\<lparr>trace_file := f1,
                      stderr := stderr s @ [''Failed to read trace length.'' @ nl]\<rparr>))
           else
             (let trace_length = (le_word len :: c_int) in
              if int (TRACE_BUFFER_CAPACITY H) < sint trace_length then
                (Inl (Exit 4),
                 s\<lparr>trace_file := f1,
                   stderr := stderr s @
                     [''ERROR: Trace length '' @ fmt_d (sint trace_length) @
                      '' exceeds capacity. File is garbled.'' @ nl]\<rparr>)
              else
                (case fread (sizeof_trace_record_t H)
                        (unat (scast trace_length :: size_t)) f1 of
                   ((recs, n2), f2) \<Rightarrow>
                     if TRACE_BUFFER_CAPACITY H * sizeof_trace_record_t H < length recs
                     then (Inl (UB BufferOverrun), s\<lparr>trace_file := f2\<rparr>)
                     else
                       (let items_read =
                              (ucast ((scast items_read :: size_t) + of_nat n2) :: c_int);
                            s2 = s\<lparr>trace_file := f2,
                                   trace := recs @ drop (length recs) (trace s)\<rparr>
                        in case write_lines H [0..<nat (sint trace_length)] s2 of
                             (Some e, s3) \<Rightarrow> (Inl e, s3)
                           | (None, s3) \<Rightarrow> (Inr (scast items_read), s3))))))"

subsection \<open>main\<close>

text \<open>\<^verbatim>\<open>while (read_trace(trace_file, csv_file) != 0) {};\<close> Every call that returns a
  nonzero count has consumed the four bytes of a length field, so the loop ends.\<close>

function trace_loop :: "trace_h \<Rightarrow> state \<Rightarrow> stop option \<times> state" where
  "trace_loop H s =
     (case read_trace H s of
        (Inl e, s') \<Rightarrow> (Some e, s')
      | (Inr n, s') \<Rightarrow> if n \<noteq> 0 then trace_loop H s' else (None, s'))"
  by pat_completeness auto
termination
proof (relation "measure (\<lambda>(H, s). length (unread (trace_file s)))")
  show "wf (measure (\<lambda>(H, s). length (unread (trace_file s))))" by simp
next
  fix H :: trace_h and s s' :: state and r :: "stop + size_t" and n :: size_t
  assume rt: "(r, s') = read_trace H s" and r: "r = Inr n" and n: "n \<noteq> 0"
  have wl: "trace_file (snd (write_line H i t)) = trace_file t" for i t
    by (simp add: write_line_def Let_def split: sum.splits)
  have wls: "trace_file (snd (write_lines H is t)) = trace_file t" for "is" t
  proof (induction "is" arbitrary: t)
    case Nil
    show ?case by simp
  next
    case (Cons i rest)
    show ?case using wl [of i t] Cons.IH [of "snd (write_line H i t)"]
      by (cases "write_line H i t") (auto split: option.splits)
  qed
  have fr: "length (unread (snd (fread a b f))) \<le> length (unread f)" for a b f
    by (simp add: fread_def Let_def)
  have "length (unread (trace_file s')) < length (unread (trace_file s))"
  proof (cases "4 \<le> length (unread (trace_file s))")
    case False
    then have "fst (read_trace H s) = Inr 0 \<or> fst (read_trace H s) = Inl (Exit 3)"
      by (simp add: read_trace_def fread_def Let_def)
    with rt r n show ?thesis by (metis fst_conv sum.inject(2) sum.distinct(1))
  next
    case True
    let ?f1 = "snd (fread 4 1 (trace_file s))"
    have l1: "length (unread ?f1) < length (unread (trace_file s))"
      using True by (simp add: fread_def Let_def)
    obtain len n1 f1 where F1: "fread 4 1 (trace_file s) = ((len, n1), f1)"
      by (metis surj_pair)
    obtain recs n2 f2 where F2: "fread (sizeof_trace_record_t H)
        (unat (scast (le_word len :: c_int) :: size_t)) f1 = ((recs, n2), f2)"
      by (metis surj_pair)
    have l2: "length (unread f2) \<le> length (unread f1)"
      using fr [of "sizeof_trace_record_t H" "unat (scast (le_word len :: c_int) :: size_t)" f1]
      by (simp add: F2)
    have F1': "fread 4 (Suc 0) (trace_file s) = ((len, n1), f1)"
      using F1 by simp
    obtain e s3 where W: "write_lines H [0..<nat (sint (le_word len :: c_int))]
        (s\<lparr>trace_file := f2, trace := recs @ drop (length recs) (trace s)\<rparr>) = (e, s3)"
      by (metis surj_pair)
    have "trace_file s3 = f2"
      using wls [of "[0..<nat (sint (le_word len :: c_int))]"
                    "s\<lparr>trace_file := f2, trace := recs @ drop (length recs) (trace s)\<rparr>"]
      by (simp add: W)
    then have "trace_file (snd (read_trace H s)) = f1 \<or> trace_file (snd (read_trace H s)) = f2"
      by (simp add: read_trace_def F1' F2 W Let_def split: option.splits)
    moreover have "?f1 = f1"
      by (simp add: F1')
    ultimately have "length (unread (trace_file (snd (read_trace H s)))) \<le> length (unread ?f1)"
      using l2 by (elim disjE) simp_all
    with l1 rt show ?thesis by (metis snd_conv le_less_trans)
  qed
  then show "((H, s'), (H, s)) \<in> measure (\<lambda>(H, s). length (unread (trace_file s)))"
    by simp
qed

declare trace_loop.simps [simp del]

text \<open>The globals when the program starts (static storage is zeroed), with the trace
  file as \<^verbatim>\<open>fopen\<close> returned it.\<close>

definition initial_state :: "trace_h \<Rightarrow> FILE \<Rightarrow> state" where
  "initial_state H f =
     \<lparr>start_time = 0,
      object_descriptions = None,
      object_descriptions_size = 0,
      trace = replicate (TRACE_BUFFER_CAPACITY H * sizeof_trace_record_t H) (CHR 0x00),
      trace_file = f,
      csv_file = [],
      stderr = []\<rparr>"

definition open_file :: "string \<Rightarrow> FILE" where
  "open_file bytes = \<lparr>unread = bytes, eof_ind = False, err_ind = False, io_error = False\<rparr>"

definition csv_header :: string where
  "csv_header =
     ''Event, Reactor, Reaction, Worker, Elapsed Logical Time, Microstep, Elapsed Physical Time''
     @ nl"

text \<open>The loop that frees the descriptions reads \<^verbatim>\<open>object_descriptions[i]\<close> for every
  index below the size.\<close>

definition free_descriptions :: "state \<Rightarrow> stop option" where
  "free_descriptions s =
     (if 0 < sint (object_descriptions_size s) \<and> object_descriptions s = None
      then Some (UB NullDereference) else None)"

text \<open>
  \<^verbatim>\<open>main\<close>, given \<open>argc\<close>, the file root \<^verbatim>\<open>argv[1]\<close> and what the two \<^verbatim>\<open>fopen\<close>
  calls return: the trace file opened for reading (\<open>None\<close> for \<^verbatim>\<open>NULL\<close>), and
  whether the output file could be created. The result of \<^verbatim>\<open>read_header\<close> is a
  \<^verbatim>\<open>size_t\<close>, and so is the comparison with 0.
\<close>

definition main ::
  "trace_h \<Rightarrow> libc \<Rightarrow> int \<Rightarrow> string \<Rightarrow> FILE option \<Rightarrow> bool \<Rightarrow> (stop + int) \<times> state" where
  "main H L argc root trace_fopen csv_fopen =
     (if argc \<noteq> 2 then (Inl (Exit 0), initial_state H (open_file []))
      else
        (case trace_fopen of
           None \<Rightarrow>
             (Inl (Exit 2),
              (initial_state H (open_file []))
                \<lparr>stderr := [''No trace file named '' @ root @ ''.lft.'' @ nl]\<rparr>)
         | Some f \<Rightarrow>
             if \<not> csv_fopen then
               (Inl (Exit 2),
                (initial_state H f)
                  \<lparr>stderr := [''Could not create output file named '' @ root @ ''.csv.''
                               @ nl]\<rparr>)
             else
               (case read_header H L (initial_state H f) of
                  (Inl e, s1) \<Rightarrow> (Inl e, s1)
                | (Inr n, s1) \<Rightarrow>
                    (case (if 0 \<le> n
                           then trace_loop H (s1\<lparr>csv_file := csv_file s1 @ [csv_header]\<rparr>)
                           else (None, s1)) of
                       (Some e, s2) \<Rightarrow> (Inl e, s2)
                     | (None, s2) \<Rightarrow>
                         (case free_descriptions s2 of
                            Some e \<Rightarrow> (Inl e, s2)
                          | None \<Rightarrow> (Inr 0, s2))))))"

subsection \<open>A concrete platform, for evaluating the program\<close>

text \<open>An instance of what \<^verbatim>\<open>trace.h\<close> supplies, with room for two records and a table
  of two event names, and an allocator that refuses a block whose size in bytes does
  not fit \<^verbatim>\<open>size_t\<close> (\<^verbatim>\<open>errno\<close> 12, \<^verbatim>\<open>ENOMEM\<close>).\<close>

definition small_trace_h :: trace_h where
  "small_trace_h =
     \<lparr>TRACE_BUFFER_CAPACITY = 2,
      trace_event_names = [''Reaction starts'', ''Reaction ends''],
      sizeof_trace_record_t = 48,
      load_trace_record = lp64_record\<rparr>"

definition checked_calloc :: libc where
  "checked_calloc = \<lparr>calloc_failure = (\<lambda>nmemb sz. if 2 ^ 64 \<le> nmemb * sz then Some 12 else None)\<rparr>"

definition zeros :: "nat \<Rightarrow> string" where
  "zeros n = replicate n (CHR 0x00)"

text \<open>Trace files and states used to run the program: a length field cut after two
  bytes, once at the end of the file and once on a device that fails; a batch of one
  record whose event kind is 1000; a batch of one zeroed record; a declared length of
  3; an empty batch followed by a batch of one record; a declared length of -1; a whole
  trace file with start time 1000, object count -1 and one record at logical time 1500
  and physical time 1600 with no reaction; a state with a one-entry symbol table; a
  state whose first record has the least logical time and start time 1.\<close>

definition truncated_length_file :: FILE where
  "truncated_length_file = open_file [CHR 0x01, CHR 0x00]"

definition failing_device :: FILE where
  "failing_device = \<lparr>unread = [CHR 0x01, CHR 0x00], eof_ind = False, err_ind = False, io_error = True\<rparr>"

definition bad_kind_file :: FILE where
  "bad_kind_file = open_file ([CHR 0x01, CHR 0x00, CHR 0x00, CHR 0x00] @ [CHR 0xE8, CHR 0x03] @ zeros 46)"

definition one_record_file :: FILE where
  "one_record_file = open_file ([CHR 0x01, CHR 0x00, CHR 0x00, CHR 0x00] @ zeros 48)"

definition oversized_file :: FILE where
  "oversized_file = open_file ([CHR 0x03, CHR 0x00, CHR 0x00, CHR 0x00] @ zeros 144)"

definition empty_batch_file :: FILE where
  "empty_batch_file = open_file ([CHR 0x00, CHR 0x00, CHR 0x00, CHR 0x00] @ [CHR 0x01, CHR 0x00, CHR 0x00, CHR 0x00] @ zeros 48)"

definition negative_length_file :: FILE where
  "negative_length_file = open_file ([CHR 0xFF, CHR 0xFF, CHR 0xFF, CHR 0xFF] @ zeros 48)"

definition alloc_failure_trace :: FILE where
  "alloc_failure_trace = open_file
     ([CHR 0xE8, CHR 0x03] @ zeros 6 @
      [CHR 0xFF, CHR 0xFF, CHR 0xFF, CHR 0xFF] @
      [CHR 0x01, CHR 0x00, CHR 0x00, CHR 0x00] @
      zeros 16 @ [CHR 0xFF, CHR 0xFF, CHR 0xFF, CHR 0xFF] @ zeros 4 @
      [CHR 0xDC, CHR 0x05] @ zeros 14 @ [CHR 0x40, CHR 0x06] @ zeros 6)"

definition lookup_state :: state where
  "lookup_state =
     (initial_state small_trace_h (open_file []))
       \<lparr>object_descriptions := Some [\<lparr>object = 5, description = ''Reactor_A''\<rparr>],
        object_descriptions_size := 1\<rparr>"

definition wrap_state :: state where
  "wrap_state =
     (initial_state small_trace_h (open_file []))
       \<lparr>start_time := 1, trace := zeros 31 @ [CHR 0x80] @ zeros 64\<rparr>"

section \<open>Properties\<close>

subsection \<open>Auxiliary facts\<close>

text \<open>Unfolding the decimal rendering one digit at a time.\<close>

lemma dec_small: "n < 10 \<Longrightarrow> dec n = [digit_char n]"
  by (simp add: dec.simps)

lemma dec_big: "\<not> n < 10 \<Longrightarrow> dec n = dec (n div 10) @ [digit_char (n mod 10)]"
  by (subst dec.simps) simp

lemmas eval_fmt = fmt_d_def dec_small dec_big digit_char_def snprintf_d_def nl_def

lemma length_dec: "n < 10 ^ k \<Longrightarrow> 0 < k \<Longrightarrow> length (dec n) \<le> k"
proof (induction k arbitrary: n)
  case 0
  then show ?case by simp
next
  case (Suc k)
  show ?case
  proof (cases "n < 10")
    case True
    then show ?thesis by (simp add: dec_small)
  next
    case False
    with Suc.prems have k: "0 < k" by (cases k) auto
    from Suc.prems have "n div 10 < 10 ^ k"
      by (simp add: less_mult_imp_div_less mult.commute)
    from Suc.IH [OF this k] False show ?thesis by (simp add: dec_big)
  qed
qed

lemma fread_4_enough:
  "4 \<le> length (unread f) \<Longrightarrow>
   fread 4 (Suc 0) f = ((take 4 (unread f), 1), f\<lparr>unread := drop 4 (unread f)\<rparr>)"
  by (simp add: fread_def Let_def)

lemma fread_4_short:
  "length (unread f) < 4 \<Longrightarrow>
   fread 4 (Suc 0) f =
     ((unread f, 0),
      f\<lparr>unread := [], eof_ind := eof_ind f \<or> \<not> io_error f,
        err_ind := err_ind f \<or> io_error f\<rparr>)"
  by (simp add: fread_def Let_def)

lemma write_line_no_exit: "fst (write_line H i s) \<noteq> Some (Exit c)"
  by (simp add: write_line_def get_description_def Let_def split: option.splits)

lemma write_lines_no_exit: "fst (write_lines H is s) \<noteq> Some (Exit c)"
proof (induction "is" arbitrary: s)
  case Nil
  show ?case by simp
next
  case (Cons i rest)
  show ?case
  proof (cases "write_line H i s")
    case (Pair e s')
    show ?thesis
    proof (cases e)
      case None
      with Pair Cons.IH [of s'] show ?thesis by simp
    next
      case (Some x)
      with Pair write_line_no_exit [of H i s c] show ?thesis by simp
    qed
  qed
qed

lemma fread_nothing: "fread sz 0 f = (([], 0), f)"
  by (simp add: fread_def Let_def)

lemma read_trace_body:
  assumes "4 \<le> length (unread (trace_file s))"
    and "\<not> int (TRACE_BUFFER_CAPACITY H) < sint (le_word (take 4 (unread (trace_file s))) :: c_int)"
    and "fread (sizeof_trace_record_t H)
           (unat (scast (le_word (take 4 (unread (trace_file s))) :: c_int) :: size_t))
           ((trace_file s)\<lparr>unread := drop 4 (unread (trace_file s))\<rparr>) = ((recs, n2), f2)"
  shows "read_trace H s =
     (if TRACE_BUFFER_CAPACITY H * sizeof_trace_record_t H < length recs
      then (Inl (UB BufferOverrun), s\<lparr>trace_file := f2\<rparr>)
      else
        (case write_lines H [0..<nat (sint (le_word (take 4 (unread (trace_file s))) :: c_int))]
                (s\<lparr>trace_file := f2, trace := recs @ drop (length recs) (trace s)\<rparr>) of
           (Some e, s3) \<Rightarrow> (Inl e, s3)
         | (None, s3) \<Rightarrow> (Inr (scast (ucast (1 + of_nat n2 :: size_t) :: c_int)), s3)))"
  using assms by (simp add: read_trace_def fread_4_enough)

lemma scan_miss:
  "obj \<notin> object ` set es \<Longrightarrow> scan_descriptions es obj = ''NO DESCRIPTION FOUND''"
  by (induction es) auto

lemma sint64_diff:
  "sint (a - b :: 64 word) = (sint a - sint b + 2 ^ 63) mod 2 ^ 64 - 2 ^ 63"
  by (simp add: sint_word_ariths signed_take_bit_eq_take_bit_shift take_bit_eq_mod)

text \<open>A batch that is read in full: unless writing a row runs into undefined behaviour,
  the value returned is the number of records plus one.\<close>

lemma fread_enough:
  assumes "sz * n \<le> length (unread f)" and "0 < sz"
  shows "fread sz n f = ((take (sz * n) (unread f), n), f\<lparr>unread := drop (sz * n) (unread f)\<rparr>)"
  using assms by (simp add: fread_def Let_def min_absorb2)

lemma items_read_sum:
  assumes "n + 1 < 2 ^ 31"
  shows "(scast (ucast (1 + of_nat n :: size_t) :: c_int) :: size_t) = of_nat n + 1"
proof -
  have "(1 + of_nat n :: size_t) = of_nat (n + 1)" by simp
  then have "(ucast (1 + of_nat n :: size_t) :: c_int) = of_nat (n + 1)"
    using assms by (simp only: unsigned_of_nat) (simp add: take_bit_nat_eq_self)
  moreover have "(scast (of_nat (n + 1) :: c_int) :: size_t) = of_nat (n + 1)"
    using assms by (simp only: signed_of_nat) (simp add: signed_take_bit_int_eq_self)
  ultimately show ?thesis by simp
qed

lemma write_line_stop: "fst (write_line H i s) = Some e \<Longrightarrow> \<exists>u. e = UB u"
  by (auto simp: write_line_def get_description_def Let_def split: if_splits option.splits)

lemma write_lines_stop: "fst (write_lines H is s) = Some e \<Longrightarrow> \<exists>u. e = UB u"
proof (induction "is" arbitrary: s)
  case Nil
  then show ?case by simp
next
  case (Cons i rest)
  show ?case
  proof (cases "write_line H i s")
    case (Pair x s')
    show ?thesis
    proof (cases x)
      case None
      with Pair Cons.prems Cons.IH [of s'] show ?thesis by simp
    next
      case (Some y)
      with Pair Cons.prems write_line_stop [of H i s y] show ?thesis by simp
    qed
  qed
qed

lemma read_trace_full_batch:
  assumes len: "4 \<le> length (unread (trace_file s))"
    and tl: "(le_word (take 4 (unread (trace_file s))) :: c_int) = of_nat n"
    and cap: "n \<le> TRACE_BUFFER_CAPACITY H"
    and small: "n + 1 < 2 ^ 31"
    and sz: "0 < sizeof_trace_record_t H"
    and full: "4 + sizeof_trace_record_t H * n \<le> length (unread (trace_file s))"
  shows "fst (read_trace H s) = Inr (of_nat n + 1) \<or> (\<exists>u. fst (read_trace H s) = Inl (UB u))"
proof -
  let ?tl = "le_word (take 4 (unread (trace_file s))) :: c_int"
  let ?f1 = "(trace_file s)\<lparr>unread := drop 4 (unread (trace_file s))\<rparr>"
  have st: "sint ?tl = int n"
    using small by (simp only: tl signed_of_nat) (simp add: signed_take_bit_int_eq_self)
  have "(scast ?tl :: size_t) = of_nat n"
    using small by (simp only: tl signed_of_nat) (simp add: signed_take_bit_int_eq_self)
  moreover have "n < 2 ^ 64"
    using small by (rule_tac less_trans [of n "2 ^ 31"]) simp_all
  ultimately have un: "unat (scast ?tl :: size_t) = n"
    by (simp add: unat_of_nat)
  have nocap: "\<not> int (TRACE_BUFFER_CAPACITY H) < sint ?tl"
    using cap by (simp add: st)
  have F2: "fread (sizeof_trace_record_t H) (unat (scast ?tl :: size_t)) ?f1 =
      ((take (sizeof_trace_record_t H * n) (unread ?f1), n),
       ?f1\<lparr>unread := drop (sizeof_trace_record_t H * n) (unread ?f1)\<rparr>)"
    unfolding un using full sz by (intro fread_enough) simp_all
  note body = read_trace_body [OF len nocap F2]
  have fits: "\<not> TRACE_BUFFER_CAPACITY H * sizeof_trace_record_t H
                < length (take (sizeof_trace_record_t H * n) (unread ?f1))"
    using cap by (simp add: mult.commute)
  obtain e s3 where W: "write_lines H [0..<nat (sint ?tl)]
      (s\<lparr>trace_file := ?f1\<lparr>unread := drop (sizeof_trace_record_t H * n) (unread ?f1)\<rparr>,
         trace := take (sizeof_trace_record_t H * n) (unread ?f1) @
                  drop (length (take (sizeof_trace_record_t H * n) (unread ?f1))) (trace s)\<rparr>)
      = (e, s3)"
    by (metis surj_pair)
  show ?thesis
  proof (cases e)
    case None
    with body fits W show ?thesis by (simp add: items_read_sum [OF small])
  next
    case (Some x)
    with W write_lines_stop [of H _ _ x] obtain u where "x = UB u"
      by (metis fst_conv)
    with Some body fits W show ?thesis by simp
  qed
qed

text \<open>The table pointer: with a positive size and no table the lookup reads through
  \<^verbatim>\<open>NULL\<close>; \<^verbatim>\<open>read_header\<close> leaves the pointer \<^verbatim>\<open>NULL\<close> only on the return of -1 that
  reports the failed allocation.\<close>

lemma get_description_null_table:
  "object_descriptions s = None \<Longrightarrow> 0 < sint (object_descriptions_size s) \<Longrightarrow>
   get_description s obj = Inl (UB NullDereference)"
  by (simp add: get_description_def)

lemma read_entries_table:
  "read_entries is s = (None, s') \<Longrightarrow> object_descriptions s = Some t \<Longrightarrow>
   \<exists>t'. object_descriptions s' = Some t' \<and> length t' = length t"
proof (induction "is" arbitrary: s t)
  case Nil
  then show ?case by simp
next
  case (Cons i rest)
  from Cons.prems show ?case
    by (auto simp: Let_def split: prod.splits if_splits sum.splits dest!: Cons.IH)
qed

lemma read_header_table:
  assumes "read_header H L s = (Inr n, s')" and "object_descriptions s' = None"
  shows "n = - 1"
  using assms
  by (auto simp: read_header_def Let_def split: prod.splits if_splits option.splits sum.splits
           dest!: read_entries_table)

subsection \<open>The batch-length field at the end of the input\<close>

text \<open>
  C1, as the code has it. When fewer than four bytes are left for a batch-length field,
  \<^verbatim>\<open>read_trace\<close> returns 0, the value that ends the loop of \<^verbatim>\<open>main\<close> normally,
  whenever the stream is then at end of file: that is so with no byte left and also
  with one, two or three bytes left. The short read is the fatal error \<^verbatim>\<open>exit(3)\<close> only
  when it is not due to the end of the file, that is when the read itself failed.
\<close>

theorem read_trace_short_length_field:
  assumes "length (unread (trace_file s)) < 4"
  shows "fst (read_trace H s) =
           (if eof_ind (trace_file s) \<or> \<not> io_error (trace_file s) then Inr 0
            else Inl (Exit 3))"
  using assms by (simp add: read_trace_def fread_4_short feof_def)

text \<open>On a device that fails after two bytes of the length field the run stops with
  code 3.\<close>

theorem read_trace_short_length_field_witness:
  "length (unread (trace_file (initial_state small_trace_h failing_device))) < 4
   \<and> fst (read_trace small_trace_h (initial_state small_trace_h failing_device)) = Inl (Exit 3)"
proof -
  have h: "length (unread (trace_file (initial_state small_trace_h failing_device))) < 4"
    by code_simp
  have c: "\<not> (eof_ind (trace_file (initial_state small_trace_h failing_device))
             \<or> \<not> io_error (trace_file (initial_state small_trace_h failing_device)))"
    by code_simp
  from read_trace_short_length_field [OF h, of small_trace_h] c
  have "fst (read_trace small_trace_h (initial_state small_trace_h failing_device)) = Inl (Exit 3)"
    by (simp only: if_False)
  with h show ?thesis by (rule conjI)
qed

text \<open>With two bytes where the four of a length field are expected, and the file ending
  there, \<^verbatim>\<open>read_trace\<close> returns 0 as it does at a clean end of file: the truncated field
  is not a fatal error.\<close>

theorem truncated_length_ends_quietly:
  "fst (read_trace small_trace_h (initial_state small_trace_h truncated_length_file)) = Inr 0"
  by code_simp

subsection \<open>The event kind\<close>

text \<open>
  C2, as the code has it. \<^verbatim>\<open>read_trace\<close> does not check the event kind of a record. The
  name table is indexed with \<^verbatim>\<open>event_type\<close> as read, so the access falls outside the
  table exactly when the kind is negative or not below the length of the table, and
  nothing in the loop over the records stops the run with an exit code. For a record
  whose kind is inside the table, the row written has the table's entry at that index in
  its Event column.
\<close>

theorem event_kind_unchecked:
  "(fst (write_line H i s) = Some (UB IndexOutOfTable)) =
      (sint (event_type (trace_at H s i)) < 0
       \<or> int (length (trace_event_names H)) \<le> sint (event_type (trace_at H s i)))
   \<and> (\<forall>c. fst (write_lines H is s) \<noteq> Some (Exit c))
   \<and> (0 \<le> sint (event_type (trace_at H s i))
       \<and> sint (event_type (trace_at H s i)) < int (length (trace_event_names H))
       \<and> get_description s (self_struct (trace_at H s i)) = Inr descr \<longrightarrow>
       write_line H i s =
         (None, s\<lparr>csv_file := csv_file s @
            [fprintf_row (row_of (start_time s)
               (trace_event_names H ! nat (sint (event_type (trace_at H s i))))
               descr (trace_at H s i))]\<rparr>))"
proof -
  have "(fst (write_line H i s) = Some (UB IndexOutOfTable)) =
      (sint (event_type (trace_at H s i)) < 0
       \<or> int (length (trace_event_names H)) \<le> sint (event_type (trace_at H s i)))"
    by (auto simp: write_line_def get_description_def Let_def split: option.splits)
  moreover have "\<forall>c. fst (write_lines H is s) \<noteq> Some (Exit c)"
    by (simp add: write_lines_no_exit)
  ultimately show ?thesis
    by (simp add: write_line_def Let_def)
qed

theorem event_kind_unchecked_witness:
  "0 \<le> sint (event_type (trace_at small_trace_h lookup_state 0))
   \<and> sint (event_type (trace_at small_trace_h lookup_state 0))
       < int (length (trace_event_names small_trace_h))
   \<and> get_description lookup_state (self_struct (trace_at small_trace_h lookup_state 0))
       = Inr ''NO DESCRIPTION FOUND''
   \<and> fst (write_line small_trace_h 0 lookup_state) \<noteq> Some (UB IndexOutOfTable)
   \<and> csv_file (snd (write_line small_trace_h 0 lookup_state)) =
       [''Reaction starts, NO DESCRIPTION FOUND, 0, 0, 0, 0, 0'' @ nl]"
proof -
  let ?r = "trace_at small_trace_h lookup_state 0"
  have h1: "0 \<le> sint (event_type ?r)"
    by code_simp
  have h2: "sint (event_type ?r) < int (length (trace_event_names small_trace_h))"
    by code_simp
  have h3: "get_description lookup_state (self_struct ?r) = Inr ''NO DESCRIPTION FOUND''"
    by code_simp
  have c: "csv_file lookup_state @
            [fprintf_row (row_of (start_time lookup_state)
               (trace_event_names small_trace_h ! nat (sint (event_type ?r)))
               ''NO DESCRIPTION FOUND'' ?r)] =
           [''Reaction starts, NO DESCRIPTION FOUND, 0, 0, 0, 0, 0'' @ nl]"
    by code_simp
  from event_kind_unchecked [of small_trace_h 0 lookup_state "[]" "''NO DESCRIPTION FOUND''"]
  have 1: "(fst (write_line small_trace_h 0 lookup_state) = Some (UB IndexOutOfTable)) =
      (sint (event_type ?r) < 0 \<or> int (length (trace_event_names small_trace_h)) \<le> sint (event_type ?r))"
    and 2: "write_line small_trace_h 0 lookup_state =
         (None, lookup_state\<lparr>csv_file := csv_file lookup_state @
            [fprintf_row (row_of (start_time lookup_state)
               (trace_event_names small_trace_h ! nat (sint (event_type ?r)))
               ''NO DESCRIPTION FOUND'' ?r)]\<rparr>)"
    using h1 h2 h3 by blast+
  from 1 h1 h2 have "fst (write_line small_trace_h 0 lookup_state) \<noteq> Some (UB IndexOutOfTable)"
    by simp
  moreover from 2 c have "csv_file (snd (write_line small_trace_h 0 lookup_state)) =
       [''Reaction starts, NO DESCRIPTION FOUND, 0, 0, 0, 0, 0'' @ nl]"
    by simp
  ultimately show ?thesis using h1 h2 h3 by blast
qed

text \<open>A batch of one record whose event kind is 1000, with a table of two names: the
  record reaches the indexing of the table, outside its bounds, and no corruption
  error is raised.\<close>

theorem out_of_table_kind_is_indexed:
  "fst (read_trace small_trace_h (initial_state small_trace_h bad_kind_file))
     = Inl (UB IndexOutOfTable)"
  by code_simp

subsection \<open>Allocation failure in read_header\<close>

text \<open>
  C3 asks that, when the allocation of the symbol table fails, \<^verbatim>\<open>read_header\<close> reports
  it and the guard of \<^verbatim>\<open>main\<close> keeps the decoding loop from running, so that no body row
  is written. The code reports the failure and returns -1, but as a \<^verbatim>\<open>size_t\<close>, which is
  never below 0: the guard lets the loop run. On a trace file whose object count is -1
  (the allocator refuses the block), \<^verbatim>\<open>read_header\<close> returns the largest \<^verbatim>\<open>size_t\<close>,
  and \<^verbatim>\<open>main\<close> writes the header line and the row of the record that follows, and ends
  with status 0.
\<close>

theorem main_decodes_after_allocation_failure:
  "fst (read_header small_trace_h checked_calloc (initial_state small_trace_h alloc_failure_trace))
     = Inr (- 1)
   \<and> fst (main small_trace_h checked_calloc 2 ''t'' (Some alloc_failure_trace) True) = Inr 0
   \<and> csv_file (snd (main small_trace_h checked_calloc 2 ''t'' (Some alloc_failure_trace) True)) =
       [csv_header, ''Reaction starts, NO DESCRIPTION FOUND, none, 0, 500, 0, 600'' @ nl]
   \<and> stderr (snd (main small_trace_h checked_calloc 2 ''t'' (Some alloc_failure_trace) True)) =
       [''ERROR: Memory allocation failure 12.'' @ nl]"
  by code_simp

subsection \<open>The reaction column\<close>

text \<open>
  C4, as the code has it. The reaction index is rendered as \<^verbatim>\<open>none\<close> when the reaction
  number is negative. Otherwise it is rendered into a block of four bytes: reaction
  numbers from 0 to 999 appear as their full decimal text, larger ones as the first
  three characters of it. In particular -1 gives \<^verbatim>\<open>none\<close>, 0 gives \<^verbatim>\<open>0\<close> and 7 gives
  \<^verbatim>\<open>7\<close>.
\<close>

theorem reaction_name_rendering:
  "reaction_name n =
     (if sint n < 0 then ''none''
      else if sint n < 1000 then fmt_d (sint n)
      else take 3 (fmt_d (sint n)))
   \<and> reaction_name (- 1) = ''none'' \<and> reaction_name 0 = ''0'' \<and> reaction_name 7 = ''7''"
proof -
  have "take 3 (fmt_d (sint n)) = fmt_d (sint n)" if "0 \<le> sint n" "sint n < 1000"
  proof -
    have "nat (sint n) < 10 ^ 3" using that by simp
    then have "length (dec (nat (sint n))) \<le> 3" by (rule length_dec) simp
    with that show ?thesis by (simp add: fmt_d_def)
  qed
  then have "reaction_name n =
     (if sint n < 0 then ''none''
      else if sint n < 1000 then fmt_d (sint n)
      else take 3 (fmt_d (sint n)))"
    by (simp add: reaction_name_def snprintf_d_def)
  moreover have "reaction_name (- 1) = ''none'' \<and> reaction_name 0 = ''0'' \<and> reaction_name 7 = ''7''"
    by (simp add: reaction_name_def eval_fmt)
  ultimately show ?thesis by simp
qed

theorem reaction_name_rendering_witness:
  "reaction_name 12345 = take 3 (fmt_d 12345) \<and> reaction_name 999 = fmt_d 999"
proof -
  have a: "sint (12345 :: c_int) = 12345" and b: "sint (999 :: c_int) = 999" by simp_all
  from reaction_name_rendering [of 12345] reaction_name_rendering [of 999]
  show ?thesis by (simp add: a b)
qed

text \<open>Reaction number 1000 is rendered as \<^verbatim>\<open>100\<close>, not as its full decimal text.\<close>

theorem reaction_name_truncates: "reaction_name 1000 = ''100''"
  by (simp add: reaction_name_def eval_fmt)

subsection \<open>The value read_trace returns\<close>

text \<open>
  C5 asks that, for a batch that is read in full, \<^verbatim>\<open>read_trace\<close> returns the number of
  records of the batch, as its header comment says, and that the loop of \<^verbatim>\<open>main\<close> calls
  it until it returns 0. The code adds the records read to the one item of the length
  field (\<open>read_trace_full_batch\<close>): for a batch of one record it writes one row and
  returns 2.
\<close>

theorem read_trace_counts_length_field:
  "fst (read_trace small_trace_h (initial_state small_trace_h one_record_file)) = Inr 2
   \<and> length (csv_file (snd (read_trace small_trace_h (initial_state small_trace_h one_record_file)))) = 1"
  by code_simp

subsection \<open>Objects without a description\<close>

text \<open>
  C6. For an object identity that is not in the symbol table, \<^verbatim>\<open>get_description\<close>
  returns the text \<^verbatim>\<open>NO DESCRIPTION FOUND\<close>, and the record that names the object (its
  event kind being inside the name table) is written as a row like any other: the line
  is the event name, that text in the Reactor column, the reaction, the worker, the
  elapsed logical time, the microstep and the elapsed physical time, separated by a
  comma and a space and ended by a newline. The miss is not an error, and the loop
  goes on with the records that are left. The symbol table is the first
  \<^verbatim>\<open>object_descriptions_size\<close> entries behind the table pointer; with a size that is
  not positive the table is empty, whatever the pointer. (With a positive size and a
  \<^verbatim>\<open>NULL\<close> pointer, the state left by a failed allocation, there is no table to miss
  in: see \<open>get_description_null_table\<close>.)
\<close>

theorem get_description_miss:
  assumes "case object_descriptions s of
             None \<Rightarrow> sint (object_descriptions_size s) \<le> 0
           | Some table \<Rightarrow>
               obj \<notin> object ` set (take (nat (sint (object_descriptions_size s))) table)"
    and "self_struct (trace_at H s i) = obj"
    and "0 \<le> sint (event_type (trace_at H s i))"
    and "sint (event_type (trace_at H s i)) < int (length (trace_event_names H))"
  shows "get_description s obj = Inr ''NO DESCRIPTION FOUND''
       \<and> write_line H i s =
           (None,
            s\<lparr>csv_file := csv_file s @
               [trace_event_names H ! nat (sint (event_type (trace_at H s i))) @ '', '' @
                ''NO DESCRIPTION FOUND'' @ '', '' @
                reaction_name (reaction_number (trace_at H s i)) @ '', '' @
                fmt_d (sint (worker (trace_at H s i))) @ '', '' @
                fmt_d (sint (logical_time (trace_at H s i) - start_time s)) @ '', '' @
                fmt_d (sint (microstep (trace_at H s i))) @ '', '' @
                fmt_d (sint (physical_time (trace_at H s i) - start_time s)) @ nl]\<rparr>)
       \<and> write_lines H (i # rest) s = write_lines H rest (snd (write_line H i s))"
proof -
  have g: "get_description s obj = Inr ''NO DESCRIPTION FOUND''"
    using assms(1) by (simp add: get_description_def scan_miss split: option.splits)
  have w: "write_line H i s =
           (None,
            s\<lparr>csv_file := csv_file s @
               [trace_event_names H ! nat (sint (event_type (trace_at H s i))) @ '', '' @
                ''NO DESCRIPTION FOUND'' @ '', '' @
                reaction_name (reaction_number (trace_at H s i)) @ '', '' @
                fmt_d (sint (worker (trace_at H s i))) @ '', '' @
                fmt_d (sint (logical_time (trace_at H s i) - start_time s)) @ '', '' @
                fmt_d (sint (microstep (trace_at H s i))) @ '', '' @
                fmt_d (sint (physical_time (trace_at H s i) - start_time s)) @ nl]\<rparr>)"
    using assms(2-4) g by (simp add: write_line_def Let_def fprintf_row_def row_of_def)
  have "write_lines H (i # rest) s = write_lines H rest (snd (write_line H i s))"
    by (simp add: w)
  with g w show ?thesis by simp
qed

theorem get_description_miss_witness:
  "object_descriptions lookup_state = Some [\<lparr>object = 5, description = ''Reactor_A''\<rparr>]
   \<and> sint (object_descriptions_size lookup_state) = 1
   \<and> self_struct (trace_at small_trace_h lookup_state 0) = 0
   \<and> get_description lookup_state 0 = Inr ''NO DESCRIPTION FOUND''
   \<and> write_line small_trace_h 0 lookup_state =
       (None, lookup_state\<lparr>csv_file :=
          [''Reaction starts, NO DESCRIPTION FOUND, 0, 0, 0, 0, 0'' @ nl]\<rparr>)
   \<and> write_lines small_trace_h [0, 1] lookup_state =
       (None, lookup_state\<lparr>csv_file :=
          [''Reaction starts, NO DESCRIPTION FOUND, 0, 0, 0, 0, 0'' @ nl,
           ''Reaction starts, NO DESCRIPTION FOUND, 0, 0, 0, 0, 0'' @ nl]\<rparr>)"
proof -
  have t: "object_descriptions lookup_state = Some [\<lparr>object = 5, description = ''Reactor_A''\<rparr>]"
    by code_simp
  have n: "sint (object_descriptions_size lookup_state) = 1"
    by code_simp
  have h1: "case object_descriptions lookup_state of
             None \<Rightarrow> sint (object_descriptions_size lookup_state) \<le> 0
           | Some table \<Rightarrow>
               (0 :: pointer) \<notin> object ` set (take (nat (sint (object_descriptions_size lookup_state))) table)"
    by (simp add: t n)
  have h2: "self_struct (trace_at small_trace_h lookup_state 0) = 0"
    by code_simp
  have h3: "0 \<le> sint (event_type (trace_at small_trace_h lookup_state 0))"
    by code_simp
  have h4: "sint (event_type (trace_at small_trace_h lookup_state 0))
              < int (length (trace_event_names small_trace_h))"
    by code_simp
  have line: "csv_file lookup_state @
      [trace_event_names small_trace_h ! nat (sint (event_type (trace_at small_trace_h lookup_state 0))) @ '', '' @
       ''NO DESCRIPTION FOUND'' @ '', '' @
       reaction_name (reaction_number (trace_at small_trace_h lookup_state 0)) @ '', '' @
       fmt_d (sint (worker (trace_at small_trace_h lookup_state 0))) @ '', '' @
       fmt_d (sint (logical_time (trace_at small_trace_h lookup_state 0) - start_time lookup_state)) @ '', '' @
       fmt_d (sint (microstep (trace_at small_trace_h lookup_state 0))) @ '', '' @
       fmt_d (sint (physical_time (trace_at small_trace_h lookup_state 0) - start_time lookup_state)) @ nl]
      = [''Reaction starts, NO DESCRIPTION FOUND, 0, 0, 0, 0, 0'' @ nl]"
    by code_simp
  note inst = get_description_miss [OF h1 h2 h3 h4, of "[1]"]
  from inst have g: "get_description lookup_state 0 = Inr ''NO DESCRIPTION FOUND''"
    by (rule conjunct1)
  from inst have w: "write_line small_trace_h 0 lookup_state =
       (None, lookup_state\<lparr>csv_file :=
          [''Reaction starts, NO DESCRIPTION FOUND, 0, 0, 0, 0, 0'' @ nl]\<rparr>)"
    by (simp only: line)
  from inst have "write_lines small_trace_h [0, 1] lookup_state =
      write_lines small_trace_h [1] (snd (write_line small_trace_h 0 lookup_state))"
    by (elim conjE)
  moreover have "write_lines small_trace_h [1]
      (lookup_state\<lparr>csv_file := [''Reaction starts, NO DESCRIPTION FOUND, 0, 0, 0, 0, 0'' @ nl]\<rparr>) =
       (None, lookup_state\<lparr>csv_file :=
          [''Reaction starts, NO DESCRIPTION FOUND, 0, 0, 0, 0, 0'' @ nl,
           ''Reaction starts, NO DESCRIPTION FOUND, 0, 0, 0, 0, 0'' @ nl]\<rparr>)"
    by code_simp
  ultimately have ws: "write_lines small_trace_h [0, 1] lookup_state =
       (None, lookup_state\<lparr>csv_file :=
          [''Reaction starts, NO DESCRIPTION FOUND, 0, 0, 0, 0, 0'' @ nl,
           ''Reaction starts, NO DESCRIPTION FOUND, 0, 0, 0, 0, 0'' @ nl]\<rparr>)"
    by (simp only: w snd_conv)
  from t n h2 g w ws show ?thesis by (intro conjI)
qed

subsection \<open>A declared length above the capacity\<close>

text \<open>
  C7. When the declared length of a batch is greater than \<^verbatim>\<open>TRACE_BUFFER_CAPACITY\<close>,
  \<^verbatim>\<open>read_trace\<close> stops the run with \<^verbatim>\<open>exit(4)\<close>, a code of its own, before any record
  of the batch is read: only the four bytes of the length field are consumed, the record
  buffer is as it was, and nothing is written to the output.
\<close>

theorem read_trace_oversized_batch:
  assumes "4 \<le> length (unread (trace_file s))"
    and "int (TRACE_BUFFER_CAPACITY H) < sint (le_word (take 4 (unread (trace_file s))) :: c_int)"
  shows "fst (read_trace H s) = Inl (Exit 4)
       \<and> csv_file (snd (read_trace H s)) = csv_file s
       \<and> trace (snd (read_trace H s)) = trace s
       \<and> unread (trace_file (snd (read_trace H s))) = drop 4 (unread (trace_file s))"
  using assms by (simp add: read_trace_def fread_4_enough)

theorem read_trace_oversized_batch_witness:
  "4 \<le> length (unread (trace_file (initial_state small_trace_h oversized_file)))
   \<and> int (TRACE_BUFFER_CAPACITY small_trace_h)
       < sint (le_word (take 4 (unread (trace_file (initial_state small_trace_h oversized_file))))
                 :: c_int)
   \<and> fst (read_trace small_trace_h (initial_state small_trace_h oversized_file)) = Inl (Exit 4)
   \<and> csv_file (snd (read_trace small_trace_h (initial_state small_trace_h oversized_file))) = []
   \<and> length (unread (trace_file
        (snd (read_trace small_trace_h (initial_state small_trace_h oversized_file))))) = 144"
proof -
  let ?s = "initial_state small_trace_h oversized_file"
  have h1: "4 \<le> length (unread (trace_file ?s))"
    by code_simp
  have h2: "int (TRACE_BUFFER_CAPACITY small_trace_h)
       < sint (le_word (take 4 (unread (trace_file ?s))) :: c_int)"
    by code_simp
  have c: "csv_file ?s = []" "length (drop 4 (unread (trace_file ?s))) = 144"
    by code_simp+
  from read_trace_oversized_batch [OF h1 h2] h1 h2 c show ?thesis
    by simp
qed

subsection \<open>Elapsed times\<close>

text \<open>
  C8. In every row that is written, the elapsed logical time is the record's logical
  time minus \<^verbatim>\<open>start_time\<close>, and the elapsed physical time is the record's physical time
  minus \<^verbatim>\<open>start_time\<close>, both as signed 64-bit differences that wrap around: the exact
  difference is brought back into the range from \<open>- 2 ^ 63\<close> to \<open>2 ^ 63 - 1\<close> modulo
  \<open>2 ^ 64\<close>, with no saturation and no clamping.
\<close>

theorem elapsed_times_wrap:
  assumes "write_line H i s = (None, s')"
  shows "\<exists>event_name descr.
           csv_file s' = csv_file s @
             [fprintf_row (row_of (start_time s) event_name descr (trace_at H s i))]
         \<and> Elapsed_Logical_Time (row_of (start_time s) event_name descr (trace_at H s i)) =
             fmt_d ((sint (logical_time (trace_at H s i)) - sint (start_time s) + 2 ^ 63)
                      mod 2 ^ 64 - 2 ^ 63)
         \<and> Elapsed_Physical_Time (row_of (start_time s) event_name descr (trace_at H s i)) =
             fmt_d ((sint (physical_time (trace_at H s i)) - sint (start_time s) + 2 ^ 63)
                      mod 2 ^ 64 - 2 ^ 63)"
proof -
  have el: "Elapsed_Logical_Time (row_of st ev d r) =
              fmt_d ((sint (logical_time r) - sint st + 2 ^ 63) mod 2 ^ 64 - 2 ^ 63)
          \<and> Elapsed_Physical_Time (row_of st ev d r) =
              fmt_d ((sint (physical_time r) - sint st + 2 ^ 63) mod 2 ^ 64 - 2 ^ 63)"
    for st ev d r
    by (simp add: row_of_def sint64_diff)
  from assms obtain ev d where
    "csv_file s' = csv_file s @ [fprintf_row (row_of (start_time s) ev d (trace_at H s i))]"
    by (auto simp: write_line_def Let_def split: if_splits sum.splits)
  with el show ?thesis by blast
qed

text \<open>With the least logical time and start time 1, the difference wraps around to the
  greatest 64-bit value, and that is what the row shows.\<close>

theorem elapsed_times_wrap_witness:
  "write_line small_trace_h 0 wrap_state =
     (None, wrap_state\<lparr>csv_file :=
        [''Reaction starts, NO DESCRIPTION FOUND, 0, 0, 9223372036854775807, 0, -1'' @ nl]\<rparr>)
   \<and> sint (logical_time (trace_at small_trace_h wrap_state 0)) = - (2 ^ 63)
   \<and> sint (start_time wrap_state) = 1
   \<and> (\<exists>event_name descr.
         Elapsed_Logical_Time
           (row_of (start_time wrap_state) event_name descr (trace_at small_trace_h wrap_state 0))
           = fmt_d (2 ^ 63 - 1))"
proof -
  have h: "write_line small_trace_h 0 wrap_state =
     (None, wrap_state\<lparr>csv_file :=
        [''Reaction starts, NO DESCRIPTION FOUND, 0, 0, 9223372036854775807, 0, -1'' @ nl]\<rparr>)"
    by code_simp
  have a: "sint (logical_time (trace_at small_trace_h wrap_state 0)) = - (2 ^ 63)"
    by code_simp
  have b: "sint (start_time wrap_state) = 1"
    by code_simp
  from elapsed_times_wrap [OF h] obtain event_name descr where
    "Elapsed_Logical_Time
       (row_of (start_time wrap_state) event_name descr (trace_at small_trace_h wrap_state 0)) =
     fmt_d ((sint (logical_time (trace_at small_trace_h wrap_state 0)) - sint (start_time wrap_state)
             + 2 ^ 63) mod 2 ^ 64 - 2 ^ 63)"
    by blast
  then have "Elapsed_Logical_Time
       (row_of (start_time wrap_state) event_name descr (trace_at small_trace_h wrap_state 0)) =
     fmt_d (2 ^ 63 - 1)"
    by (simp add: a b)
  with h a b show ?thesis by blast
qed

subsection \<open>An empty batch\<close>

text \<open>
  C9. For a batch whose declared length is 0, \<^verbatim>\<open>read_trace\<close> writes no row and returns
  1, the one item of the length field it has read, leaving the state as it was but for
  the four bytes consumed; the value is not 0, so the loop of \<^verbatim>\<open>main\<close> goes on: what
  it does from there is to call \<^verbatim>\<open>read_trace\<close> on the input that follows the empty
  batch, and to continue or stop on that call's result.
\<close>

theorem read_trace_empty_batch:
  assumes "4 \<le> length (unread (trace_file s))"
    and "(le_word (take 4 (unread (trace_file s))) :: c_int) = 0"
  shows "fst (read_trace H s) = Inr 1
       \<and> csv_file (snd (read_trace H s)) = csv_file s
       \<and> unread (trace_file (snd (read_trace H s))) = drop 4 (unread (trace_file s))
       \<and> trace_loop H s = trace_loop H (snd (read_trace H s))
       \<and> snd (read_trace H s) =
           s\<lparr>trace_file := (trace_file s)\<lparr>unread := drop 4 (unread (trace_file s))\<rparr>\<rparr>
       \<and> trace_loop H s =
           (case read_trace H
                   (s\<lparr>trace_file := (trace_file s)\<lparr>unread := drop 4 (unread (trace_file s))\<rparr>\<rparr>) of
              (Inl e, s2) \<Rightarrow> (Some e, s2)
            | (Inr n, s2) \<Rightarrow> if n \<noteq> 0 then trace_loop H s2 else (None, s2))"
proof -
  let ?s1 = "s\<lparr>trace_file := (trace_file s)\<lparr>unread := drop 4 (unread (trace_file s))\<rparr>\<rparr>"
  have rt: "read_trace H s = (Inr 1, ?s1)"
    using assms by (simp add: read_trace_def fread_4_enough fread_nothing)
  have step: "trace_loop H s = trace_loop H ?s1"
    by (subst trace_loop.simps) (simp add: rt)
  have "trace_loop H ?s1 =
           (case read_trace H ?s1 of
              (Inl e, s2) \<Rightarrow> (Some e, s2)
            | (Inr n, s2) \<Rightarrow> if n \<noteq> 0 then trace_loop H s2 else (None, s2))"
    by (rule trace_loop.simps)
  with step have next_call: "trace_loop H s =
           (case read_trace H ?s1 of
              (Inl e, s2) \<Rightarrow> (Some e, s2)
            | (Inr n, s2) \<Rightarrow> if n \<noteq> 0 then trace_loop H s2 else (None, s2))"
    by (rule trans)
  from step have "trace_loop H s = trace_loop H (snd (read_trace H s))"
    by (simp add: rt)
  with rt next_call show ?thesis by simp
qed

text \<open>An empty batch followed by a batch of one record: the loop reads on to the end of
  the file and writes the row of that record.\<close>

theorem read_trace_empty_batch_witness:
  "4 \<le> length (unread (trace_file (initial_state small_trace_h empty_batch_file)))
   \<and> (le_word (take 4 (unread (trace_file (initial_state small_trace_h empty_batch_file))))
        :: c_int) = 0
   \<and> fst (read_trace small_trace_h (initial_state small_trace_h empty_batch_file)) = Inr 1
   \<and> csv_file (snd (read_trace small_trace_h (initial_state small_trace_h empty_batch_file))) = []
   \<and> trace_loop small_trace_h (initial_state small_trace_h empty_batch_file) =
       trace_loop small_trace_h
         (snd (read_trace small_trace_h (initial_state small_trace_h empty_batch_file)))
   \<and> fst (trace_loop small_trace_h (initial_state small_trace_h empty_batch_file)) = None
   \<and> csv_file (snd (trace_loop small_trace_h (initial_state small_trace_h empty_batch_file))) =
       [''Reaction starts, NO DESCRIPTION FOUND, 0, 0, 0, 0, 0'' @ nl]
   \<and> unread (trace_file
        (snd (trace_loop small_trace_h (initial_state small_trace_h empty_batch_file)))) = []"
proof -
  let ?s = "initial_state small_trace_h empty_batch_file"
  let ?s1 = "?s\<lparr>trace_file := (trace_file ?s)\<lparr>unread := drop 4 (unread (trace_file ?s))\<rparr>\<rparr>"
  let ?next = "case read_trace small_trace_h ?s1 of
              (Inl e, s2) \<Rightarrow> (Some e, s2)
            | (Inr n, s2) \<Rightarrow> if n \<noteq> 0 then trace_loop small_trace_h s2 else (None, s2)"
  have h1: "4 \<le> length (unread (trace_file ?s))"
    by code_simp
  have h2: "(le_word (take 4 (unread (trace_file ?s))) :: c_int) = 0"
    by code_simp
  have c: "csv_file ?s = []"
    by code_simp
  note inst = read_trace_empty_batch [OF h1 h2, of small_trace_h]
  from inst have loop: "trace_loop small_trace_h ?s = ?next"
    by (elim conjE)
  have n1: "fst ?next = None"
    by code_simp
  have n2: "csv_file (snd ?next) = [''Reaction starts, NO DESCRIPTION FOUND, 0, 0, 0, 0, 0'' @ nl]"
    by code_simp
  have n3: "unread (trace_file (snd ?next)) = []"
    by code_simp
  from n1 n2 n3 have
    "fst (trace_loop small_trace_h ?s) = None"
    "csv_file (snd (trace_loop small_trace_h ?s)) =
       [''Reaction starts, NO DESCRIPTION FOUND, 0, 0, 0, 0, 0'' @ nl]"
    "unread (trace_file (snd (trace_loop small_trace_h ?s))) = []"
    by (simp_all only: loop)
  with inst h1 h2 c show ?thesis
    by simp
qed

subsection \<open>A negative declared length\<close>

text \<open>
  C10. The check of the batch length rejects the lengths greater than the capacity and
  no others: \<^verbatim>\<open>read_trace\<close> stops with \<^verbatim>\<open>exit(4)\<close> exactly when the declared length is
  greater than \<^verbatim>\<open>TRACE_BUFFER_CAPACITY\<close>. A negative declared length passes the check:
  it leads to no exit code at all, and no row is written for it.
\<close>

theorem batch_length_check:
  assumes "4 \<le> length (unread (trace_file s))"
  shows "(fst (read_trace H s) = Inl (Exit 4)) =
           (int (TRACE_BUFFER_CAPACITY H) < sint (le_word (take 4 (unread (trace_file s))) :: c_int))
       \<and> (sint (le_word (take 4 (unread (trace_file s))) :: c_int) < 0 \<longrightarrow>
            (\<forall>c. fst (read_trace H s) \<noteq> Inl (Exit c))
            \<and> csv_file (snd (read_trace H s)) = csv_file s)"
proof -
  let ?tl = "le_word (take 4 (unread (trace_file s))) :: c_int"
  show ?thesis
  proof (cases "int (TRACE_BUFFER_CAPACITY H) < sint ?tl")
    case True
    with assms show ?thesis by (simp add: read_trace_def fread_4_enough)
  next
    case False
    obtain recs n2 f2 where F2: "fread (sizeof_trace_record_t H)
           (unat (scast ?tl :: size_t))
           ((trace_file s)\<lparr>unread := drop 4 (unread (trace_file s))\<rparr>) = ((recs, n2), f2)"
      by (metis surj_pair)
    note body = read_trace_body [OF assms False F2]
    let ?s2 = "s\<lparr>trace_file := f2, trace := recs @ drop (length recs) (trace s)\<rparr>"
    obtain e s3 where W: "write_lines H [0..<nat (sint ?tl)] ?s2 = (e, s3)"
      by (metis surj_pair)
    have ne: "e \<noteq> Some (Exit c)" for c
      using write_lines_no_exit [of H "[0..<nat (sint ?tl)]" ?s2 c] by (simp add: W)
    have no_exit: "fst (read_trace H s) \<noteq> Inl (Exit c)" for c
      using ne [of c] by (cases e) (simp_all add: body W)
    have "csv_file (snd (read_trace H s)) = csv_file s" if "sint ?tl < 0"
      using that by (simp add: body)
    with no_exit False show ?thesis by simp
  qed
qed

theorem batch_length_check_witness:
  "4 \<le> length (unread (trace_file (initial_state small_trace_h negative_length_file)))
   \<and> sint (le_word (take 4 (unread (trace_file (initial_state small_trace_h negative_length_file))))
             :: c_int) = - 1
   \<and> fst (read_trace small_trace_h (initial_state small_trace_h negative_length_file))
        \<noteq> Inl (Exit 4)
   \<and> csv_file (snd (read_trace small_trace_h (initial_state small_trace_h negative_length_file)))
        = []"
proof -
  let ?s = "initial_state small_trace_h negative_length_file"
  have h1: "4 \<le> length (unread (trace_file ?s))"
    by code_simp
  have h2: "sint (le_word (take 4 (unread (trace_file ?s))) :: c_int) = - 1"
    by code_simp
  have c: "csv_file ?s = []"
    by code_simp
  from batch_length_check [OF h1, of small_trace_h] h1 h2 c show ?thesis
    by simp
qed

end
